theory Spec2Isabelle
  imports Main "HOL-Library.Word"
begin

section \<open>Type expressions of the declaration files\<close>

text \<open>
  The repository holds ambient declarations only. A declaration file is data: classes with
  a superclass and fields, type aliases, and function signatures. The type expressions
  that occur in \<^verbatim>\<open>types/jsonwebtoken-promisified/index.d.ts\<close> are embedded as the
  datatype below; a name that refers to another declaration (of this module, or of the
  node and ECMAScript typings) is a \<open>TRef\<close>.
\<close>

datatype ty =
    TString
  | TNumber
  | TBoolean
  | TVoid
  | TNull
  | TAny
  | TObject                          \<comment> \<open>the keyword type \<^verbatim>\<open>object\<close>\<close>
  | TRef string                      \<comment> \<open>a named type\<close>
  | TPromise ty                      \<comment> \<open>\<^verbatim>\<open>Promise<T>\<close>\<close>
  | TUnion "ty list"                 \<comment> \<open>\<^verbatim>\<open>A | B | ...\<close>\<close>
  | TLit "(string \<times> ty) list"        \<comment> \<open>\<^verbatim>\<open>{ a: A; b: B }\<close>\<close>
  | TIndexed ty                      \<comment> \<open>\<^verbatim>\<open>{ [key: string]: T }\<close>\<close>
  | TFn "(string \<times> ty) list" ty      \<comment> \<open>\<^verbatim>\<open>(a: A, b: B) => R\<close>\<close>

record param =
  p_name :: string
  p_optional :: bool
  p_type :: ty

record cdecl =
  c_name :: string
  c_extends :: "string option"
  c_fields :: "(string \<times> ty) list"
  c_ctor :: "param list"

record fdecl =
  f_name :: string
  f_params :: "param list"
  f_returns :: ty

definition req :: "string \<Rightarrow> ty \<Rightarrow> param" where
  "req n t = \<lparr>p_name = n, p_optional = False, p_type = t\<rparr>"

definition opt :: "string \<Rightarrow> ty \<Rightarrow> param" where
  "opt n t = \<lparr>p_name = n, p_optional = True, p_type = t\<rparr>"


section \<open>The module jsonwebtoken-promisified\<close>

subsection \<open>Error classes\<close>

definition JsonWebTokenError :: cdecl where
  "JsonWebTokenError =
     \<lparr>c_name = ''JsonWebTokenError'',
      c_extends = Some ''Error'',
      c_fields = [(''inner'', TRef ''Error'')],
      c_ctor = [req ''message'' TString, opt ''error'' (TRef ''Error'')]\<rparr>"

definition TokenExpiredError :: cdecl where
  "TokenExpiredError =
     \<lparr>c_name = ''TokenExpiredError'',
      c_extends = Some ''JsonWebTokenError'',
      c_fields = [(''expiredAt'', TNumber)],
      c_ctor = [req ''message'' TString, req ''expiredAt'' TNumber]\<rparr>"

definition NotBeforeError :: cdecl where
  "NotBeforeError =
     \<lparr>c_name = ''NotBeforeError'',
      c_extends = Some ''JsonWebTokenError'',
      c_fields = [(''date'', TRef ''Date'')],
      c_ctor = [req ''message'' TString, req ''date'' (TRef ''Date'')]\<rparr>"

text \<open>The classes the module exports, in the order of the file.\<close>

definition classes :: "cdecl list" where
  "classes = [JsonWebTokenError, TokenExpiredError, NotBeforeError]"

subsection \<open>Type aliases\<close>

definition VerifyCallback :: ty where
  "VerifyCallback =
     TFn [(''err'', TUnion [TRef ''JsonWebTokenError'', TRef ''NotBeforeError'',
                            TRef ''TokenExpiredError'']),
          (''decoded'', TUnion [TObject, TString])]
         TVoid"

definition SignCallback :: ty where
  "SignCallback = TFn [(''err'', TRef ''Error''), (''encoded'', TString)] TVoid"

definition Secret :: ty where
  "Secret =
     TUnion [TString, TRef ''Buffer'',
             TLit [(''key'', TString), (''passphrase'', TString)]]"

definition aliases :: "(string \<times> ty) list" where
  "aliases =
     [(''VerifyCallback'', VerifyCallback),
      (''SignCallback'', SignCallback),
      (''Secret'', Secret)]"

subsection \<open>Function signatures\<close>

text \<open>
  One entry for each overload, in the order of the file: the three forms of \<open>sign\<close>,
  \<open>signAsync\<close>, the three forms of \<open>verify\<close>, \<open>verifyAsync\<close>, and \<open>decode\<close>.
\<close>

definition payload_ty :: ty where
  "payload_ty = TUnion [TString, TRef ''Buffer'', TObject]"

definition signatures :: "fdecl list" where
  "signatures =
     [\<lparr>f_name = ''sign'',
       f_params = [req ''payload'' payload_ty,
                   req ''secretOrPrivateKey'' (TRef ''Secret''),
                   opt ''options'' (TRef ''SignOptions'')],
       f_returns = TString\<rparr>,
      \<lparr>f_name = ''sign'',
       f_params = [req ''payload'' payload_ty,
                   req ''secretOrPrivateKey'' (TRef ''Secret''),
                   req ''callback'' (TRef ''SignCallback'')],
       f_returns = TVoid\<rparr>,
      \<lparr>f_name = ''sign'',
       f_params = [req ''payload'' payload_ty,
                   req ''secretOrPrivateKey'' (TRef ''Secret''),
                   req ''options'' (TRef ''SignOptions''),
                   req ''callback'' (TRef ''SignCallback'')],
       f_returns = TVoid\<rparr>,
      \<lparr>f_name = ''signAsync'',
       f_params = [req ''payload'' payload_ty,
                   req ''secretOrPrivateKey'' (TRef ''Secret''),
                   opt ''options'' (TRef ''SignOptions'')],
       f_returns = TPromise TString\<rparr>,
      \<lparr>f_name = ''verify'',
       f_params = [req ''token'' TString,
                   req ''secretOrPublicKey'' (TUnion [TString, TRef ''Buffer'']),
                   opt ''options'' (TRef ''VerifyOptions'')],
       f_returns = TUnion [TObject, TString]\<rparr>,
      \<lparr>f_name = ''verify'',
       f_params = [req ''token'' TString,
                   req ''secretOrPublicKey'' (TUnion [TString, TRef ''Buffer'']),
                   opt ''callback'' (TRef ''VerifyCallback'')],
       f_returns = TVoid\<rparr>,
      \<lparr>f_name = ''verify'',
       f_params = [req ''token'' TString,
                   req ''secretOrPublicKey'' (TUnion [TString, TRef ''Buffer'']),
                   req ''options'' (TRef ''VerifyOptions''),
                   opt ''callback'' (TRef ''VerifyCallback'')],
       f_returns = TVoid\<rparr>,
      \<lparr>f_name = ''verifyAsync'',
       f_params = [req ''token'' TString,
                   req ''secretOrPublicKey'' (TUnion [TString, TRef ''Buffer'']),
                   opt ''options'' (TRef ''VerifyOptions'')],
       f_returns = TPromise (TUnion [TObject, TString])\<rparr>,
      \<lparr>f_name = ''decode'',
       f_params = [req ''token'' TString,
                   opt ''options'' (TRef ''DecodeOptions'')],
       f_returns = TUnion [TNull, TIndexed TAny, TString]\<rparr>]"


section \<open>The class hierarchy\<close>

definition class_of :: "cdecl list \<Rightarrow> string \<Rightarrow> cdecl option" where
  "class_of cs n = find (\<lambda>c. c_name c = n) cs"

text \<open>
  The proper ancestors of a class, nearest first. A superclass that the table does not
  declare (here \<open>Error\<close>, of the ECMAScript typings) ends the chain. The fuel bounds the
  walk, so that a cyclic table cannot make it run on; the length of the table is enough
  for an acyclic one.
\<close>

fun ancestors :: "cdecl list \<Rightarrow> nat \<Rightarrow> string \<Rightarrow> string list" where
  "ancestors cs 0 n = []"
| "ancestors cs (Suc k) n =
     (case class_of cs n of
        None \<Rightarrow> []
      | Some c \<Rightarrow>
          (case c_extends c of
             None \<Rightarrow> []
           | Some s \<Rightarrow> s # ancestors cs k s))"

definition is_subclass :: "cdecl list \<Rightarrow> string \<Rightarrow> string \<Rightarrow> bool" where
  "is_subclass cs n s = (s \<in> set (ancestors cs (length cs) n))"

text \<open>The classes of the table that specialise \<open>s\<close>, directly or through a chain.\<close>

definition specializations :: "cdecl list \<Rightarrow> string \<Rightarrow> string list" where
  "specializations cs s = filter (\<lambda>n. is_subclass cs n s) (map c_name cs)"

definition direct_specializations :: "cdecl list \<Rightarrow> string \<Rightarrow> string list" where
  "direct_specializations cs s = map c_name (filter (\<lambda>c. c_extends c = Some s) cs)"

text \<open>
  The instance fields of a class: those of its declared ancestors, outermost first, then
  its own.
\<close>

definition own_fields :: "cdecl list \<Rightarrow> string \<Rightarrow> (string \<times> ty) list" where
  "own_fields cs n = (case class_of cs n of None \<Rightarrow> [] | Some c \<Rightarrow> c_fields c)"

definition all_fields :: "cdecl list \<Rightarrow> string \<Rightarrow> (string \<times> ty) list" where
  "all_fields cs n =
     concat (map (own_fields cs) (rev (ancestors cs (length cs) n))) @ own_fields cs n"


section \<open>Key material and the key parameter of a signature\<close>

text \<open>
  Modelled from the spec: \<open>Buffer\<close> is declared by the node typings (the file has
  \<^verbatim>\<open>/// <reference types="node" />\<close>), which are not part of the repository. The
  spec describes a secret as text, raw bytes, or a passphrase-protected key; here a
  \<open>Buffer\<close> value is its bytes, and it is neither a string nor a plain object.
\<close>

datatype key_value =
    KString string
  | KBuffer "8 word list"
  | KObject string string            \<comment> \<open>\<^verbatim>\<open>{ key: k, passphrase: p }\<close>\<close>

text \<open>
  Whether a type expression admits a key value. A named type is unfolded through the
  aliases of the module (the fuel bounds the unfolding); the only other name that
  admits key material is \<open>Buffer\<close>. An object type admits the key object when each
  property it requires is \<open>key\<close> or \<open>passphrase\<close>, at a type that admits the string
  the object holds there.
\<close>

fun admits :: "nat \<Rightarrow> ty \<Rightarrow> key_value \<Rightarrow> bool" where
  "admits k TString v = (case v of KString _ \<Rightarrow> True | _ \<Rightarrow> False)"
| "admits k TAny v = True"
| "admits k TObject v = (case v of KString _ \<Rightarrow> False | _ \<Rightarrow> True)"
| "admits k (TUnion ts) v = list_ex (\<lambda>t. admits k t v) ts"
| "admits k (TLit fs) v =
     (case v of
        KObject key passphrase \<Rightarrow>
          list_all (\<lambda>f. (fst f = ''key'' \<and> admits k (snd f) (KString key)) \<or>
                        (fst f = ''passphrase'' \<and> admits k (snd f) (KString passphrase))) fs
      | _ \<Rightarrow> False)"
| "admits k (TRef n) v =
     (case map_of aliases n of
        Some t \<Rightarrow> (case k of 0 \<Rightarrow> False | Suc j \<Rightarrow> admits j t v)
      | None \<Rightarrow> (case v of KBuffer _ \<Rightarrow> n = ''Buffer'' | _ \<Rightarrow> False))"
| "admits k _ v = False"

definition param_type :: "fdecl \<Rightarrow> string \<Rightarrow> ty option" where
  "param_type f n = map_option p_type (find (\<lambda>p. p_name p = n) (f_params f))"

text \<open>
  The key parameter is the second one of every form of sign and verify; the file names
  it \<open>secretOrPrivateKey\<close> in the signing forms and \<open>secretOrPublicKey\<close> in the
  verifying ones.
\<close>

definition signing :: "fdecl \<Rightarrow> bool" where
  "signing f = (f_name f = ''sign'' \<or> f_name f = ''signAsync'')"

definition verifying :: "fdecl \<Rightarrow> bool" where
  "verifying f = (f_name f = ''verify'' \<or> f_name f = ''verifyAsync'')"

definition key_type :: "fdecl \<Rightarrow> ty option" where
  "key_type f =
     (if signing f then param_type f ''secretOrPrivateKey''
      else if verifying f then param_type f ''secretOrPublicKey''
      else None)"

definition accepts_key :: "fdecl \<Rightarrow> key_value \<Rightarrow> bool" where
  "accepts_key f v =
     (case key_type f of
        None \<Rightarrow> False
      | Some t \<Rightarrow> admits (length aliases) t v)"


section \<open>Properties of the class hierarchy\<close>

text \<open>
  In any class table, a class has every field that one of its ancestors declares.
\<close>

lemma inherited_fields:
  "is_subclass cs n s \<Longrightarrow> set (own_fields cs s) \<subseteq> set (all_fields cs n)"
  by (auto simp add: is_subclass_def all_fields_def)

text \<open>
  Claim C6. The error taxonomy of the module: the classes it declares are
  \<open>JsonWebTokenError\<close>, \<open>TokenExpiredError\<close> and \<open>NotBeforeError\<close>. The base class
  \<open>JsonWebTokenError\<close> declares the field \<open>inner\<close> of type \<open>Error\<close>, the wrapped
  cause. Exactly two classes specialise it, \<open>TokenExpiredError\<close> and \<open>NotBeforeError\<close>,
  both directly, and neither is specialised further. An instance of \<open>TokenExpiredError\<close>
  has the inherited \<open>inner\<close> and its own \<open>expiredAt\<close>, a number (the expiration
  instant); an instance of \<open>NotBeforeError\<close> has the inherited \<open>inner\<close> and its own
  \<open>date\<close>, a \<open>Date\<close> (the activation instant).
\<close>

theorem error_taxonomy:
  "map c_name classes = [''JsonWebTokenError'', ''TokenExpiredError'', ''NotBeforeError''] \<and>
   own_fields classes ''JsonWebTokenError'' = [(''inner'', TRef ''Error'')] \<and>
   direct_specializations classes ''JsonWebTokenError'' =
     [''TokenExpiredError'', ''NotBeforeError''] \<and>
   specializations classes ''JsonWebTokenError'' =
     [''TokenExpiredError'', ''NotBeforeError''] \<and>
   specializations classes ''TokenExpiredError'' = [] \<and>
   specializations classes ''NotBeforeError'' = [] \<and>
   all_fields classes ''TokenExpiredError'' =
     [(''inner'', TRef ''Error''), (''expiredAt'', TNumber)] \<and>
   all_fields classes ''NotBeforeError'' =
     [(''inner'', TRef ''Error''), (''date'', TRef ''Date'')]"
  by (simp add: specializations_def direct_specializations_def is_subclass_def
      all_fields_def own_fields_def classes_def class_of_def
      JsonWebTokenError_def TokenExpiredError_def NotBeforeError_def)


section \<open>Properties of the key parameters\<close>

lemma admits_Secret: "0 < k \<Longrightarrow> admits k (TRef ''Secret'') v"
  by (cases k; cases v) (simp_all add: aliases_def Secret_def)

lemma admits_string_or_Buffer:
  "admits k (TUnion [TString, TRef ''Buffer'']) v =
     (case v of KObject _ _ \<Rightarrow> False | _ \<Rightarrow> True)"
  by (cases v) (simp_all add: aliases_def)

lemma length_aliases: "0 < length aliases"
  by (simp add: aliases_def)

text \<open>
  Claim C10. The alias \<open>Secret\<close> is the union of \<open>string\<close>, \<open>Buffer\<close> and the object
  type with the properties \<open>key\<close> and \<open>passphrase\<close>. The module has four signing forms
  (three overloads of \<open>sign\<close>, and \<open>signAsync\<close>) and four verifying forms (three
  overloads of \<open>verify\<close>, and \<open>verifyAsync\<close>). Every signing form declares its key
  parameter as \<open>Secret\<close> and accepts a string, a \<open>Buffer\<close> and a passphrase-protected
  key object. Every verifying form declares its key parameter as \<open>string | Buffer\<close>: it
  accepts a string and a \<open>Buffer\<close>, and it accepts no passphrase-protected key object.
\<close>

theorem passphrase_key_signs_but_never_verifies:
  "map_of aliases ''Secret'' =
     Some (TUnion [TString, TRef ''Buffer'',
                   TLit [(''key'', TString), (''passphrase'', TString)]]) \<and>
   map f_name (filter signing signatures) = [''sign'', ''sign'', ''sign'', ''signAsync''] \<and>
   map f_name (filter verifying signatures) =
     [''verify'', ''verify'', ''verify'', ''verifyAsync''] \<and>
   (\<forall>f \<in> set signatures. signing f \<longrightarrow>
      key_type f = Some (TRef ''Secret'') \<and>
      (\<forall>s. accepts_key f (KString s)) \<and>
      (\<forall>b. accepts_key f (KBuffer b)) \<and>
      (\<forall>k p. accepts_key f (KObject k p))) \<and>
   (\<forall>f \<in> set signatures. verifying f \<longrightarrow>
      key_type f = Some (TUnion [TString, TRef ''Buffer'']) \<and>
      (\<forall>s. accepts_key f (KString s)) \<and>
      (\<forall>b. accepts_key f (KBuffer b)) \<and>
      (\<forall>k p. \<not> accepts_key f (KObject k p)))"
  by (simp add: signatures_def signing_def verifying_def key_type_def param_type_def
      req_def opt_def accepts_key_def admits_Secret length_aliases
      admits_string_or_Buffer)
    (simp add: aliases_def Secret_def)

text \<open>
  The theorem at two forms of the file: \<open>signAsync\<close> (entry 3 of the table) accepts the
  key object \<^verbatim>\<open>{ key: "pem", passphrase: "pw" }\<close>, and \<open>verifyAsync\<close> (entry 7) does
  not.
\<close>

theorem passphrase_key_witness:
  "signatures ! 3 \<in> set signatures \<and> signing (signatures ! 3) \<and>
   accepts_key (signatures ! 3) (KObject ''pem'' ''pw'') \<and>
   signatures ! 7 \<in> set signatures \<and> verifying (signatures ! 7) \<and>
   \<not> accepts_key (signatures ! 7) (KObject ''pem'' ''pw'')"
proof -
  have s: "signatures ! 3 \<in> set signatures" "signing (signatures ! 3)"
    by (simp_all add: signatures_def signing_def)
  have v: "signatures ! 7 \<in> set signatures" "verifying (signatures ! 7)"
    by (simp_all add: signatures_def verifying_def)
  from passphrase_key_signs_but_never_verifies s
  have a: "accepts_key (signatures ! 3) (KObject ''pem'' ''pw'')" by blast
  from passphrase_key_signs_but_never_verifies v
  have b: "\<not> accepts_key (signatures ! 7) (KObject ''pem'' ''pw'')" by blast
  from s v a b show ?thesis by blast
qed

end
